theory Spec2Isabelle
  imports Main "HOL-Library.Sublist" "HOL-Library.Log_Nat"
begin

section \<open>LifeOS x TANA backend: data model\<close>

text \<open>
  The backend of \<^verbatim>\<open>main.py\<close> is a set of request handlers over a document store.
  Every handler is modelled as a function that takes the store (and the values the
  handler reads from its environment: the clock, the identifiers the driver generates,
  the random token) and returns the store after the request together with the
  response or the raised exception.

  Strings are lists of characters. \<^verbatim>\<open>str.lower()\<close> is modelled on ASCII letters; the
  strings the handlers look for (\<^verbatim>\<open>bearer \<close>, \<^verbatim>\<open>mind\<close>, \<^verbatim>\<open>money\<close>, \<^verbatim>\<open>meaning\<close>) consist of ASCII
  characters only. Timestamps (\<^verbatim>\<open>datetime\<close>) are integers, counted in microseconds.
  Python's \<^verbatim>\<open>int\<close> is \<open>int\<close>; a \<^verbatim>\<open>float\<close> is the rational number it stands for, and every
  float operation rounds its exact result to the nearest binary64 number.
\<close>

subsection \<open>Exceptions\<close>

datatype error =
  HTTPException nat string   \<comment> \<open>status code, detail\<close>
| IndexError
| ZeroDivisionError
| OverflowError
| ValidationError   \<comment> \<open>raised by pydantic when a model is built\<close>

subsection \<open>Identifiers\<close>

text \<open>
  An \<^verbatim>\<open>ObjectId\<close> is represented by the lower-case hexadecimal digits that \<^verbatim>\<open>str()\<close>
  prints for it. \<^verbatim>\<open>ObjectId(value)\<close> takes a string of 24 characters and decodes it with
  \<^verbatim>\<open>bytes.fromhex\<close>, which reads pairs of hexadecimal digits in either case and skips
  ASCII whitespace in front of a pair; any other string raises.
\<close>

type_synonym object_id = string

definition lower_char :: "char \<Rightarrow> char" where
  "lower_char c =
     (case map_of (zip ''ABCDEFGHIJKLMNOPQRSTUVWXYZ'' ''abcdefghijklmnopqrstuvwxyz'') c of
        None \<Rightarrow> c
      | Some l \<Rightarrow> l)"

definition lower :: "string \<Rightarrow> string" where
  "lower s = map lower_char s"

definition is_hex_digit :: "char \<Rightarrow> bool" where
  "is_hex_digit c = (c \<in> set ''0123456789abcdefABCDEF'')"

definition is_space :: "char \<Rightarrow> bool" where
  "is_space c = (c \<in> set [CHR 0x09, CHR 0x0A, CHR 0x0B, CHR 0x0C, CHR 0x0D, CHR 0x20])"

text \<open>
  \<^verbatim>\<open>bytes.fromhex\<close>, giving the bytes as \<^verbatim>\<open>hexlify\<close> prints them, or \<open>None\<close> where it raises
  \<^verbatim>\<open>ValueError\<close>.
\<close>

fun fromhex :: "string \<Rightarrow> string option" where
  "fromhex [] = Some []"
| "fromhex [c] = (if is_space c then Some [] else None)"
| "fromhex (c # d # cs) =
     (if is_space c then fromhex (d # cs)
      else if is_hex_digit c \<and> is_hex_digit d
      then map_option (\<lambda>r. lower_char c # lower_char d # r) (fromhex cs)
      else None)"

definition str_oid :: "object_id \<Rightarrow> string" where
  "str_oid oid = oid"

definition to_object_id :: "string \<Rightarrow> error + object_id" where
  "to_object_id v =
     (if length v = 24
      then (case fromhex v of
              Some oid \<Rightarrow> Inr oid
            | None \<Rightarrow> Inl (HTTPException 400 ''Invalid ID format''))
      else Inl (HTTPException 400 ''Invalid ID format''))"

subsection \<open>Schemas and stored documents\<close>

datatype purpose = Healing | Growth | Direction

datatype pillar = Mind | Money | Meaning

datatype status = Requested | Scheduled | Completed | Cancelled

text \<open>
  A stored user document. The handlers read its fields with \<^verbatim>\<open>user.get(field, default)\<close>,
  so every field but \<^verbatim>\<open>_id\<close> may be absent (\<open>None\<close>).
\<close>

record user_doc =
  u_id :: object_id
  u_name :: "string option"
  u_email :: "string option"
  u_purpose :: "purpose option"
  u_age :: "int option"
  tana_mind :: "int option"
  tana_money :: "int option"
  tana_meaning :: "int option"
  total_sessions :: "int option"
  sessions_used :: "int option"

record credential_doc =
  c_id :: object_id
  c_user_id :: object_id
  c_password_hash :: string
  c_created_at :: int

record auth_token_doc =
  t_id :: object_id
  t_user_id :: object_id
  t_token :: string
  t_created_at :: int
  t_expires_at :: "int option"

record session_doc =
  s_id :: object_id
  s_user_id :: string
  s_topic :: string
  s_date :: string
  s_time :: string
  s_feedback :: "string option"
  s_spatial_url :: "string option"
  s_status :: status

record reflection_doc =
  r_id :: object_id
  r_user_id :: string
  r_pillar :: pillar
  r_entry_text :: string
  r_mood :: "string option"
  r_created_at :: "int option"

record email_log_doc =
  e_id :: object_id
  e_to :: string
  e_subject :: string
  e_body :: string
  e_created_at :: int

text \<open>The store \<^verbatim>\<open>db\<close>: one list of documents per collection, in insertion order.\<close>

record database =
  db_user :: "user_doc list"
  db_credential :: "credential_doc list"
  db_auth_token :: "auth_token_doc list"
  db_session :: "session_doc list"
  db_reflection :: "reflection_doc list"
  db_email_log :: "email_log_doc list"

text \<open>\<^verbatim>\<open>collection.find_one(filter)\<close>: the first document that matches, or \<open>None\<close>.\<close>

definition find_one :: "('a \<Rightarrow> bool) \<Rightarrow> 'a list \<Rightarrow> 'a option" where
  "find_one flt docs = List.find flt docs"

text \<open>
  \<^verbatim>\<open>collection.update_one(filter, {"$set": ...})\<close>: the first document that matches is
  changed; nothing happens when none matches.
\<close>

fun update_one :: "('a \<Rightarrow> bool) \<Rightarrow> ('a \<Rightarrow> 'a) \<Rightarrow> 'a list \<Rightarrow> 'a list" where
  "update_one flt upd [] = []"
| "update_one flt upd (d # ds) =
     (if flt d then upd d # ds else d # update_one flt upd ds)"

text \<open>The filters the handlers use: \<^verbatim>\<open>{"token": token}\<close>, \<^verbatim>\<open>{"_id": oid}\<close>, \<^verbatim>\<open>{"email": email}\<close>.\<close>

definition token_is :: "string \<Rightarrow> auth_token_doc \<Rightarrow> bool" where
  "token_is token d = (t_token d = token)"

definition id_is :: "object_id \<Rightarrow> user_doc \<Rightarrow> bool" where
  "id_is oid u = (u_id u = oid)"

definition email_is :: "string \<Rightarrow> user_doc \<Rightarrow> bool" where
  "email_is email u = (u_email u = Some email)"

text \<open>\<^verbatim>\<open>dict.get(key, default)\<close> on an optional field.\<close>

definition get_default :: "'a option \<Rightarrow> 'a \<Rightarrow> 'a" where
  "get_default field dflt = (case field of None \<Rightarrow> dflt | Some v \<Rightarrow> v)"

subsection \<open>Request and response models\<close>

record AuthUser =
  au_id :: string
  au_name :: string
  au_email :: string

section \<open>Authentication\<close>

text \<open>\<^verbatim>\<open>str.split(" ")\<close>: the pieces between single separator characters.\<close>

fun split :: "char \<Rightarrow> string \<Rightarrow> string list" where
  "split sep [] = [[]]"
| "split sep (c # cs) =
     (if c = sep then [] # split sep cs
      else (case split sep cs of
              [] \<Rightarrow> [[c]]
            | w # ws \<Rightarrow> (c # w) # ws))"

definition startswith :: "string \<Rightarrow> string \<Rightarrow> bool" where
  "startswith s p = prefix p s"

text \<open>
  \<^verbatim>\<open>get_current_user\<close>: \<open>authorization\<close> is the header (\<open>None\<close> when it is missing),
  \<open>now\<close> the reading of \<^verbatim>\<open>datetime.now(timezone.utc)\<close>. The function only reads the store.
\<close>

definition get_current_user :: "database \<Rightarrow> int \<Rightarrow> string option \<Rightarrow> error + AuthUser" where
  "get_current_user db now authorization =
     (case authorization of
        None \<Rightarrow> Inl (HTTPException 401 ''Missing or invalid authorization header'')
      | Some a \<Rightarrow>
          if a = [] \<or> \<not> startswith (lower a) ''bearer ''
          then Inl (HTTPException 401 ''Missing or invalid authorization header'')
          else (case split CHR '' '' a of
                  _ # token # _ \<Rightarrow>
                    (case find_one (token_is token) (db_auth_token db) of
                       None \<Rightarrow> Inl (HTTPException 401 ''Invalid token'')
                     | Some token_doc \<Rightarrow>
                         if (case t_expires_at token_doc of
                               None \<Rightarrow> False
                             | Some expires_at \<Rightarrow> expires_at < now)
                         then Inl (HTTPException 401 ''Token expired'')
                         else (case find_one (id_is (t_user_id token_doc)) (db_user db) of
                                 None \<Rightarrow> Inl (HTTPException 401 ''User not found'')
                               | Some user \<Rightarrow>
                                   Inr \<lparr>au_id = str_oid (u_id user),
                                        au_name = get_default (u_name user) '''',
                                        au_email = get_default (u_email user) ''''\<rparr>))
                | _ \<Rightarrow> Inl IndexError))"

section \<open>Signup\<close>

record SignupRequest =
  sr_name :: string
  sr_email :: string
  sr_password :: string
  sr_purpose :: purpose
  sr_age :: "int option"

record TokenResponse =
  tr_token :: string
  tr_user_id :: string

text \<open>
  What \<^verbatim>\<open>signup\<close> reads from outside the store: the identifiers the driver assigns to the
  three inserted documents, the value of \<^verbatim>\<open>generate_token()\<close>, and the three readings of
  the clock, in the order of the calls.
\<close>

record signup_env =
  se_user_id :: object_id
  se_credential_id :: object_id
  se_token_id :: object_id
  se_token :: string
  se_now1 :: int
  se_now2 :: int
  se_now3 :: int

text \<open>\<^verbatim>\<open>timedelta(days=7)\<close> in microseconds.\<close>

definition seven_days :: int where
  "seven_days = 7 * 24 * 3600 * 1000000"

text \<open>
  The constraint of \<^verbatim>\<open>User.age\<close> (\<^verbatim>\<open>Field(None, ge=0, le=120)\<close>). \<^verbatim>\<open>SignupRequest.age\<close> has
  none, so building the \<^verbatim>\<open>User\<close> can fail on a request that was accepted.
\<close>

definition valid_age :: "int option \<Rightarrow> bool" where
  "valid_age age = (case age of None \<Rightarrow> True | Some a \<Rightarrow> 0 \<le> a \<and> a \<le> 120)"

text \<open>
  \<^verbatim>\<open>signup\<close>. The password digest (\<^verbatim>\<open>hashlib.sha256\<close> of password and salt) is the
  parameter \<open>hash_password\<close>. \<^verbatim>\<open>User(...)\<close> is validated before anything is inserted; name,
  email and purpose have the types the request was validated with, and the other fields
  are the literals of the call, so the age is the one field that can be refused.
\<close>

definition signup ::
  "(string \<Rightarrow> string) \<Rightarrow> database \<Rightarrow> signup_env \<Rightarrow> SignupRequest
     \<Rightarrow> database \<times> (error + TokenResponse)" where
  "signup hash_password db env payload =
     (case find_one (email_is (sr_email payload)) (db_user db) of
        Some existing \<Rightarrow> (db, Inl (HTTPException 400 ''Email already registered''))
      | None \<Rightarrow>
          if \<not> valid_age (sr_age payload) then (db, Inl ValidationError)
          else
          let user_doc = \<lparr>u_id = se_user_id env,
                           u_name = Some (sr_name payload),
                           u_email = Some (sr_email payload),
                           u_purpose = Some (sr_purpose payload),
                           u_age = sr_age payload,
                           tana_mind = Some 0,
                           tana_money = Some 0,
                           tana_meaning = Some 0,
                           total_sessions = Some 3,
                           sessions_used = Some 0\<rparr>;
              db1 = db\<lparr>db_user := db_user db @ [user_doc]\<rparr>;
              user_id = se_user_id env;
              db2 = db1\<lparr>db_credential := db_credential db1 @
                      [\<lparr>c_id = se_credential_id env,
                        c_user_id = user_id,
                        c_password_hash = hash_password (sr_password payload),
                        c_created_at = se_now1 env\<rparr>]\<rparr>;
              token = se_token env;
              db3 = db2\<lparr>db_auth_token := db_auth_token db2 @
                      [\<lparr>t_id = se_token_id env,
                        t_user_id = user_id,
                        t_token = token,
                        t_created_at = se_now2 env,
                        t_expires_at = Some (se_now3 env + seven_days)\<rparr>]\<rparr>
          in (db3, Inr \<lparr>tr_token = token, tr_user_id = str_oid user_id\<rparr>))"

section \<open>Session booking\<close>

record SessionModel =
  sm_user_id :: string
  sm_topic :: string
  sm_date :: string
  sm_time :: string
  sm_feedback :: "string option"
  sm_spatial_url :: "string option"
  sm_status :: status

datatype write_response =
  Limited string      \<comment> \<open>\<^verbatim>\<open>{"limited": True, "message": ...}\<close>\<close>
| Created string      \<comment> \<open>\<^verbatim>\<open>{"created": True, "id": ...}\<close>\<close>

text \<open>The three score fields of a user document, as the keys of an update.\<close>

datatype score_field = Tana_mind | Tana_money | Tana_meaning

fun get_score :: "score_field \<Rightarrow> user_doc \<Rightarrow> int option" where
  "get_score Tana_mind u = tana_mind u"
| "get_score Tana_money u = tana_money u"
| "get_score Tana_meaning u = tana_meaning u"

fun set_score :: "score_field \<Rightarrow> int \<Rightarrow> user_doc \<Rightarrow> user_doc" where
  "set_score Tana_mind v u = u\<lparr>tana_mind := Some v\<rparr>"
| "set_score Tana_money v u = u\<lparr>tana_money := Some v\<rparr>"
| "set_score Tana_meaning v u = u\<lparr>tana_meaning := Some v\<rparr>"

text \<open>The substring test \<^verbatim>\<open>needle in haystack\<close>.\<close>

fun contains :: "string \<Rightarrow> string \<Rightarrow> bool" where
  "contains needle [] = (needle = [])"
| "contains needle (c # cs) = (prefix needle (c # cs) \<or> contains needle cs)"

text \<open>
  Modelled from the spec: \<^verbatim>\<open>create_document\<close> of \<^verbatim>\<open>database.py\<close>, which is not among the
  sources. The spec gives the document store an insert operation and string-typed record
  identifiers: the document is appended to the named collection under the identifier
  the driver assigns, and that identifier is returned as a string. One function per
  collection the handlers insert into this way.
\<close>

definition create_document_session ::
  "database \<Rightarrow> object_id \<Rightarrow> SessionModel \<Rightarrow> database \<times> string" where
  "create_document_session db new_id data =
     (db\<lparr>db_session := db_session db @
           [\<lparr>s_id = new_id,
             s_user_id = sm_user_id data,
             s_topic = sm_topic data,
             s_date = sm_date data,
             s_time = sm_time data,
             s_feedback = sm_feedback data,
             s_spatial_url = sm_spatial_url data,
             s_status = sm_status data\<rparr>]\<rparr>,
      str_oid new_id)"

text \<open>
  The rendering of \<^verbatim>\<open>user.get('name')\<close> in an f-string: a missing name prints as
  \<^verbatim>\<open>None\<close>.
\<close>

definition format_opt :: "string option \<Rightarrow> string" where
  "format_opt v = (case v of None \<Rightarrow> ''None'' | Some s \<Rightarrow> s)"

record session_env =
  sn_session_id :: object_id
  sn_email_id :: object_id
  sn_now :: int

text \<open>The key \<^verbatim>\<open>pillar_inc\<close> chosen from the topic, \<open>None\<close> when no keyword occurs.\<close>

definition pillar_inc_of :: "string \<Rightarrow> score_field option" where
  "pillar_inc_of topic_lower =
     (if contains ''mind'' topic_lower then Some Tana_mind
      else if contains ''money'' topic_lower then Some Tana_money
      else if contains ''meaning'' topic_lower then Some Tana_meaning
      else None)"

text \<open>The update \<^verbatim>\<open>{"$set": updates}\<close> of \<^verbatim>\<open>create_session\<close>, applied to a document.\<close>

definition session_updates :: "int \<Rightarrow> score_field option \<Rightarrow> user_doc \<Rightarrow> user_doc \<Rightarrow> user_doc" where
  "session_updates used pillar_inc user d =
     (let d1 = d\<lparr>sessions_used := Some (used + 1)\<rparr>
      in case pillar_inc of
           None \<Rightarrow> d1
         | Some f \<Rightarrow> set_score f (get_default (get_score f user) 0 + 1) d1)"

text \<open>
  \<^verbatim>\<open>create_session\<close>. \<open>current\<close> is the identity that \<^verbatim>\<open>get_current_user\<close> resolved.
  \<^verbatim>\<open>to_object_id(current.id)\<close> is evaluated once; the later call has the same argument.
\<close>

definition create_session ::
  "database \<Rightarrow> session_env \<Rightarrow> SessionModel \<Rightarrow> AuthUser \<Rightarrow> database \<times> (error + write_response)" where
  "create_session db env payload0 current =
     (let payload = payload0\<lparr>sm_user_id := au_id current\<rparr>
      in case to_object_id (au_id current) of
           Inl e \<Rightarrow> (db, Inl e)
         | Inr oid \<Rightarrow>
            (case find_one (id_is oid) (db_user db) of
               None \<Rightarrow> (db, Inl (HTTPException 404 ''User not found''))
             | Some user \<Rightarrow>
                 let used = get_default (sessions_used user) 0;
                     total = get_default (total_sessions user) 3
                 in if used \<ge> total
                    then (db, Inr (Limited ''Session limit reached''))
                    else
                      let (db1, inserted_id) =
                            create_document_session db (sn_session_id env) payload;
                          topic_lower = lower (sm_topic payload);
                          pillar_inc = pillar_inc_of topic_lower;
                          db2 = db1\<lparr>db_user :=
                                  update_one (id_is oid) (session_updates used pillar_inc user)
                                    (db_user db1)\<rparr>;
                          db3 = db2\<lparr>db_email_log := db_email_log db2 @
                                  [\<lparr>e_id = sn_email_id env,
                                    e_to = ''Jagathisraj4@gmail.com'',
                                    e_subject = ''New TANA Session Request'',
                                    e_body = ''User '' @ format_opt (u_name user)
                                      @ '' requested a session on '' @ sm_topic payload
                                      @ '' for '' @ sm_date payload @ '' '' @ sm_time payload,
                                    e_created_at = sn_now env\<rparr>]\<rparr>
                      in (db3, Inr (Created inserted_id))))"

section \<open>Reflections\<close>

record ReflectionModel =
  rm_user_id :: string
  rm_pillar :: pillar
  rm_entry_text :: string
  rm_mood :: "string option"
  rm_created_at :: "int option"

text \<open>
  Modelled from the spec: \<^verbatim>\<open>create_document\<close> of \<^verbatim>\<open>database.py\<close> on the collection
  \<^verbatim>\<open>reflection\<close>, as for \<^verbatim>\<open>session\<close> above: the document is appended as it is passed, and
  the identifier the driver assigns is returned as a string.
\<close>

definition create_document_reflection ::
  "database \<Rightarrow> object_id \<Rightarrow> ReflectionModel \<Rightarrow> database \<times> string" where
  "create_document_reflection db new_id data =
     (db\<lparr>db_reflection := db_reflection db @
           [\<lparr>r_id = new_id,
             r_user_id = rm_user_id data,
             r_pillar = rm_pillar data,
             r_entry_text = rm_entry_text data,
             r_mood = rm_mood data,
             r_created_at = rm_created_at data\<rparr>]\<rparr>,
      str_oid new_id)"

text \<open>The dictionary \<^verbatim>\<open>pillar_map\<close> with its \<^verbatim>\<open>get\<close>.\<close>

fun pillar_map :: "pillar \<Rightarrow> score_field option" where
  "pillar_map Mind = Some Tana_mind"
| "pillar_map Money = Some Tana_money"
| "pillar_map Meaning = Some Tana_meaning"

record reflection_env =
  rn_reflection_id :: object_id
  rn_now :: int

definition add_reflection ::
  "database \<Rightarrow> reflection_env \<Rightarrow> ReflectionModel \<Rightarrow> AuthUser \<Rightarrow> database \<times> (error + write_response)" where
  "add_reflection db env payload current =
     (if rm_user_id payload \<noteq> au_id current
      then (db, Inl (HTTPException 403 ''Forbidden''))
      else
        let doc = payload\<lparr>rm_created_at := Some (rn_now env)\<rparr>;
            (db1, inserted_id) = create_document_reflection db (rn_reflection_id env) doc
        in case to_object_id (au_id current) of
             Inl e \<Rightarrow> (db1, Inl e)
           | Inr oid \<Rightarrow>
              (case find_one (id_is oid) (db_user db1) of
                 None \<Rightarrow> (db1, Inr (Created inserted_id))
               | Some user \<Rightarrow>
                  (case pillar_map (rm_pillar payload) of
                     None \<Rightarrow> (db1, Inr (Created inserted_id))
                   | Some field \<Rightarrow>
                       (db1\<lparr>db_user :=
                              update_one (id_is oid)
                                (set_score field (get_default (get_score field user) 0 + 1))
                                (db_user db1)\<rparr>,
                        Inr (Created inserted_id)))))"

section \<open>Dashboard\<close>

subsection \<open>Float arithmetic\<close>

text \<open>
  \<^verbatim>\<open>round(x)\<close> of a float: the nearest integer, a tie going to the even neighbour.
\<close>

definition round_half_even :: "rat \<Rightarrow> int" where
  "round_half_even x =
     (let n = \<lfloor>x\<rfloor>; r = x - of_int n
      in if r < 1 / 2 then n
         else if 1 / 2 < r then n + 1
         else if even n then n else n + 1)"

text \<open>The binary exponent of a positive number: \<open>2 powi binade x \<le> x < 2 powi (binade x + 1)\<close>.\<close>

definition binade :: "rat \<Rightarrow> int" where
  "binade x =
     (if 1 \<le> x then int (floorlog 2 (nat \<lfloor>x\<rfloor>)) - 1
      else - int (floorlog 2 (nat (\<lceil>1 / x\<rceil> - 1))))"

text \<open>
  The binary64 number nearest to \<open>x\<close> (53 significant bits, ties to even, the spacing
  never below \<open>2 powi (- 1074)\<close>), or \<open>None\<close> when the rounded magnitude reaches
  \<open>2 powi 1024\<close>: there \<^verbatim>\<open>int / int\<close> raises \<^verbatim>\<open>OverflowError\<close>, and a product becomes
  infinite, which \<^verbatim>\<open>round\<close> rejects with \<^verbatim>\<open>OverflowError\<close> as well.
\<close>

definition to_double :: "rat \<Rightarrow> rat option" where
  "to_double x =
     (if x = 0 then Some 0
      else
        let e = max (binade \<bar>x\<bar> - 52) (- 1074);
            y = of_int (round_half_even (x / 2 powi e)) * 2 powi e
        in if \<bar>y\<bar> < 2 powi 1024 then Some y else None)"

text \<open>The expression \<^verbatim>\<open>round(score / total * 100)\<close> on two integers.\<close>

definition percentage :: "int \<Rightarrow> int \<Rightarrow> error + int" where
  "percentage score tot =
     (if tot = 0 then Inl ZeroDivisionError
      else case to_double (of_int score / of_int tot) of
             None \<Rightarrow> Inl OverflowError
           | Some x \<Rightarrow>
               (case to_double (x * 100) of
                  None \<Rightarrow> Inl OverflowError
                | Some y \<Rightarrow> Inr (round_half_even y)))"

subsection \<open>The endpoint\<close>

record Percentages =
  pc_mind :: int
  pc_money :: int
  pc_meaning :: int

record TanaView =
  tv_mind :: int
  tv_money :: int
  tv_meaning :: int
  tv_percentages :: Percentages

record SessionsView =
  sv_used :: int
  sv_total :: int

record Dashboard =
  dv_name :: string
  dv_purpose :: purpose
  dv_tana :: TanaView
  dv_sessions :: SessionsView

text \<open>\<^verbatim>\<open>dashboard\<close>; it only reads the store.\<close>

definition dashboard :: "database \<Rightarrow> AuthUser \<Rightarrow> error + Dashboard" where
  "dashboard db current =
     (case to_object_id (au_id current) of
        Inl e \<Rightarrow> Inl e
      | Inr oid \<Rightarrow>
         (case find_one (id_is oid) (db_user db) of
            None \<Rightarrow> Inl (HTTPException 404 ''User not found'')
          | Some user \<Rightarrow>
              let mind = get_default (tana_mind user) 0;
                  money = get_default (tana_money user) 0;
                  meaning = get_default (tana_meaning user) 0;
                  tot = max (mind + money + meaning) 1
              in case percentage mind tot of
                   Inl e \<Rightarrow> Inl e
                 | Inr p_mind \<Rightarrow>
                    (case percentage money tot of
                       Inl e \<Rightarrow> Inl e
                     | Inr p_money \<Rightarrow>
                        (case percentage meaning tot of
                           Inl e \<Rightarrow> Inl e
                         | Inr p_meaning \<Rightarrow>
                             Inr \<lparr>dv_name = get_default (u_name user) '''',
                                  dv_purpose = get_default (u_purpose user) Healing,
                                  dv_tana =
                                    \<lparr>tv_mind = mind,
                                     tv_money = money,
                                     tv_meaning = meaning,
                                     tv_percentages =
                                       \<lparr>pc_mind = p_mind,
                                        pc_money = p_money,
                                        pc_meaning = p_meaning\<rparr>\<rparr>,
                                  dv_sessions =
                                    \<lparr>sv_used = get_default (sessions_used user) 0,
                                     sv_total = get_default (total_sessions user) 3\<rparr>\<rparr>))))"

section \<open>Example stores\<close>

text \<open>A store with one user (one of three sessions used) and one token that expires at 100.\<close>

definition ex_user :: user_doc where
  "ex_user = \<lparr>u_id = ''0123456789abcdef01234567'', u_name = Some ''Asha'', u_email = Some ''asha@example.com'',
     u_purpose = Some Growth, u_age = None, tana_mind = Some 1, tana_money = Some 1, tana_meaning = Some 2,
     total_sessions = Some 3, sessions_used = Some 1\<rparr>"

definition ex_token :: auth_token_doc where
  "ex_token = \<lparr>t_id = ''aaaaaaaaaaaaaaaaaaaaaaaa'', t_user_id = ''0123456789abcdef01234567'', t_token = ''tok1'',
     t_created_at = 0, t_expires_at = Some 100\<rparr>"

definition ex_db :: database where
  "ex_db = \<lparr>db_user = [ex_user], db_credential = [], db_auth_token = [ex_token], db_session = [],
     db_reflection = [], db_email_log = []\<rparr>"

text \<open>Further documents, requests and environments for the examples.\<close>

definition ex_token_forever :: auth_token_doc where
  "ex_token_forever = \<lparr>t_id = ''bbbbbbbbbbbbbbbbbbbbbbbb'', t_user_id = ''0123456789abcdef01234567'',
     t_token = ''tok2'', t_created_at = 0, t_expires_at = None\<rparr>"

definition ex_db_forever :: database where
  "ex_db_forever = ex_db\<lparr>db_auth_token := [ex_token, ex_token_forever]\<rparr>"

definition ex_user_full :: user_doc where
  "ex_user_full = ex_user\<lparr>sessions_used := Some 3\<rparr>"

definition ex_db_full :: database where
  "ex_db_full = ex_db\<lparr>db_user := [ex_user_full]\<rparr>"

definition ex_current :: AuthUser where
  "ex_current = \<lparr>au_id = ''0123456789abcdef01234567'', au_name = ''Asha'', au_email = ''asha@example.com''\<rparr>"

definition ex_session :: SessionModel where
  "ex_session = \<lparr>sm_user_id = ''someone-else'', sm_topic = ''Mind reset'', sm_date = ''2025-01-02'',
     sm_time = ''10:00'', sm_feedback = None, sm_spatial_url = None, sm_status = Requested\<rparr>"

definition ex_session_env :: session_env where
  "ex_session_env = \<lparr>sn_session_id = ''cccccccccccccccccccccccc'', sn_email_id = ''dddddddddddddddddddddddd'',
     sn_now = 50\<rparr>"

definition ex_signup :: SignupRequest where
  "ex_signup = \<lparr>sr_name = ''Ravi'', sr_email = ''ravi@example.com'', sr_password = ''secret'',
     sr_purpose = Healing, sr_age = Some 30\<rparr>"

definition ex_signup_dup :: SignupRequest where
  "ex_signup_dup = ex_signup\<lparr>sr_email := ''asha@example.com''\<rparr>"


definition ex_signup_env :: signup_env where
  "ex_signup_env = \<lparr>se_user_id = ''111111111111111111111111'',
     se_credential_id = ''222222222222222222222222'',
     se_token_id = ''333333333333333333333333'',
     se_token = ''tok9'', se_now1 = 10, se_now2 = 11, se_now3 = 12\<rparr>"

text \<open>A stand-in for the password digest in the examples.\<close>

definition ex_hash :: "string \<Rightarrow> string" where
  "ex_hash password = rev password"

definition ex_reflection :: ReflectionModel where
  "ex_reflection = \<lparr>rm_user_id = ''0123456789abcdef01234567'', rm_pillar = Money,
     rm_entry_text = ''Saved a little'', rm_mood = None, rm_created_at = None\<rparr>"

definition ex_reflection_other :: ReflectionModel where
  "ex_reflection_other = ex_reflection\<lparr>rm_user_id := ''fedcba9876543210fedcba98''\<rparr>"

definition ex_reflection_env :: reflection_env where
  "ex_reflection_env = \<lparr>rn_reflection_id = ''eeeeeeeeeeeeeeeeeeeeeeee'', rn_now = 60\<rparr>"

definition ex_db_no_user :: database where
  "ex_db_no_user = ex_db\<lparr>db_user := []\<rparr>"

text \<open>Users for the dashboard: no score yet, and scores beyond the reach of double precision.\<close>

definition ex_user_zero :: user_doc where
  "ex_user_zero = ex_user\<lparr>tana_mind := Some 0, tana_money := Some 0, tana_meaning := Some 0\<rparr>"

definition ex_db_zero :: database where
  "ex_db_zero = ex_db\<lparr>db_user := [ex_user_zero]\<rparr>"

definition ex_user_huge :: user_doc where
  "ex_user_huge = ex_user\<lparr>tana_mind := Some 52138204283464,
     tana_money := Some 13444442613975, tana_meaning := Some 0\<rparr>"

definition ex_db_huge :: database where
  "ex_db_huge = ex_db\<lparr>db_user := [ex_user_huge]\<rparr>"

section \<open>The document store\<close>

lemma find_one_None_iff: "find_one flt docs = None \<longleftrightarrow> (\<forall>d \<in> set docs. \<not> flt d)"
  by (auto simp: find_one_def find_None_iff)

lemma find_one_update_one:
  assumes "\<And>d. flt d \<Longrightarrow> flt (upd d)"
  shows "find_one flt (update_one flt upd docs) = map_option upd (find_one flt docs)"
  using assms by (induction docs) (auto simp: find_one_def)

lemma update_one_no_match:
  "find_one flt docs = None \<Longrightarrow> update_one flt upd docs = docs"
  by (induction docs) (auto simp: find_one_def split: if_splits)

lemma split_not_Nil: "split sep s \<noteq> []"
  by (induction s) (auto split: list.splits)

section \<open>Token resolution\<close>

text \<open>Under a well-formed header the function reduces to the three look-ups.\<close>

lemma get_current_user_bearer:
  assumes hdr: "startswith (lower a) ''bearer ''"
    and tok: "split CHR '' '' a = x # token # rest"
  shows "get_current_user db now (Some a) =
     (case find_one (token_is token) (db_auth_token db) of
        None \<Rightarrow> Inl (HTTPException 401 ''Invalid token'')
      | Some token_doc \<Rightarrow>
          if (case t_expires_at token_doc of None \<Rightarrow> False | Some expires_at \<Rightarrow> expires_at < now)
          then Inl (HTTPException 401 ''Token expired'')
          else (case find_one (id_is (t_user_id token_doc)) (db_user db) of
                  None \<Rightarrow> Inl (HTTPException 401 ''User not found'')
                | Some user \<Rightarrow>
                    Inr \<lparr>au_id = str_oid (u_id user),
                         au_name = get_default (u_name user) '''',
                         au_email = get_default (u_email user) ''''\<rparr>))"
proof -
  from hdr have ne: "a \<noteq> []"
    by (auto simp: startswith_def lower_def)
  have "get_current_user db now (Some a) =
     (case split CHR '' '' a of
                  _ # token # _ \<Rightarrow>
                    (case find_one (token_is token) (db_auth_token db) of
                       None \<Rightarrow> Inl (HTTPException 401 ''Invalid token'')
                     | Some token_doc \<Rightarrow>
                         if (case t_expires_at token_doc of
                               None \<Rightarrow> False
                             | Some expires_at \<Rightarrow> expires_at < now)
                         then Inl (HTTPException 401 ''Token expired'')
                         else (case find_one (id_is (t_user_id token_doc)) (db_user db) of
                                 None \<Rightarrow> Inl (HTTPException 401 ''User not found'')
                               | Some user \<Rightarrow>
                                   Inr \<lparr>au_id = str_oid (u_id user),
                                        au_name = get_default (u_name user) '''',
                                        au_email = get_default (u_email user) ''''\<rparr>))
                | _ \<Rightarrow> Inl IndexError)"
    by (simp add: get_current_user_def hdr ne)
  also have "\<dots> = (case find_one (token_is token) (db_auth_token db) of
        None \<Rightarrow> Inl (HTTPException 401 ''Invalid token'')
      | Some token_doc \<Rightarrow>
          if (case t_expires_at token_doc of None \<Rightarrow> False | Some expires_at \<Rightarrow> expires_at < now)
          then Inl (HTTPException 401 ''Token expired'')
          else (case find_one (id_is (t_user_id token_doc)) (db_user db) of
                  None \<Rightarrow> Inl (HTTPException 401 ''User not found'')
                | Some user \<Rightarrow>
                    Inr \<lparr>au_id = str_oid (u_id user),
                         au_name = get_default (u_name user) '''',
                         au_email = get_default (u_email user) ''''\<rparr>))"
    by (simp only: tok list.case)
  finally show ?thesis .
qed


text \<open>
  C1 (as amended). For a header of the form \<^verbatim>\<open>Bearer <token>\<close>, the request is rejected with
  status 401 exactly when the token record does not exist, or it has an expiry timestamp
  that is strictly less than the current time, or the user the record refers to does not
  exist; in every other case resolution yields the projection \<open>{id, name, email}\<close> of that
  user.
\<close>

theorem get_current_user_rejects_iff:
  assumes hdr: "startswith (lower a) ''bearer ''"
    and tok: "split CHR '' '' a = x # token # rest"
  shows "((\<exists>detail. get_current_user db now (Some a) = Inl (HTTPException 401 detail)) \<longleftrightarrow>
           (find_one (token_is token) (db_auth_token db) = None \<or>
            (\<exists>token_doc. find_one (token_is token) (db_auth_token db) = Some token_doc \<and>
               ((\<exists>expires_at. t_expires_at token_doc = Some expires_at \<and> expires_at < now) \<or>
                find_one (id_is (t_user_id token_doc)) (db_user db) = None)))) \<and>
         (\<forall>token_doc user.
            find_one (token_is token) (db_auth_token db) = Some token_doc \<and>
            \<not> (\<exists>expires_at. t_expires_at token_doc = Some expires_at \<and> expires_at < now) \<and>
            find_one (id_is (t_user_id token_doc)) (db_user db) = Some user \<longrightarrow>
            get_current_user db now (Some a) =
              Inr \<lparr>au_id = str_oid (u_id user),
                   au_name = get_default (u_name user) '''',
                   au_email = get_default (u_email user) ''''\<rparr>)"
proof (cases "find_one (token_is token) (db_auth_token db)")
  case None
  then show ?thesis
    by (simp add: get_current_user_bearer [OF hdr tok])
next
  case (Some token_doc)
  note td = Some
  show ?thesis
  proof (cases "t_expires_at token_doc")
    case None
    show ?thesis
    proof (cases "find_one (id_is (t_user_id token_doc)) (db_user db)")
      case None
      with td \<open>t_expires_at token_doc = None\<close> show ?thesis
        by (simp add: get_current_user_bearer [OF hdr tok])
    next
      case (Some user)
      with td \<open>t_expires_at token_doc = None\<close> show ?thesis
        by (simp add: get_current_user_bearer [OF hdr tok])
    qed
  next
    case (Some expires_at)
    note ex = Some
    show ?thesis
    proof (cases "expires_at < now")
      case True
      with td ex show ?thesis
        by (simp add: get_current_user_bearer [OF hdr tok])
    next
      case False
      show ?thesis
      proof (cases "find_one (id_is (t_user_id token_doc)) (db_user db)")
        case None
        with td ex False show ?thesis
          by (simp add: get_current_user_bearer [OF hdr tok])
      next
        case (Some user)
        with td ex False show ?thesis
          by (simp add: get_current_user_bearer [OF hdr tok])
      qed
    qed
  qed
qed


theorem get_current_user_rejects_iff_witness:
  "get_current_user ex_db 100 (Some ''Bearer tok1'') =
     Inr \<lparr>au_id = ''0123456789abcdef01234567'', au_name = ''Asha'', au_email = ''asha@example.com''\<rparr> \<and>
   get_current_user ex_db 101 (Some ''Bearer tok1'') = Inl (HTTPException 401 ''Token expired'')"
proof -
  have hdr: "startswith (lower ''Bearer tok1'') ''bearer ''"
    by (simp add: startswith_def lower_def lower_char_def)
  have tok: "split CHR '' '' ''Bearer tok1'' = ''Bearer'' # ''tok1'' # []"
    by simp
  have ft: "find_one (token_is ''tok1'') (db_auth_token ex_db) = Some ex_token"
    by (simp add: find_one_def token_is_def ex_db_def ex_token_def)
  have fu: "find_one (id_is (t_user_id ex_token)) (db_user ex_db) = Some ex_user"
    by (simp add: find_one_def id_is_def ex_db_def ex_token_def ex_user_def)
  have ne: "\<not> (\<exists>expires_at. t_expires_at ex_token = Some expires_at \<and> expires_at < 100)"
    by (simp add: ex_token_def)
  from get_current_user_rejects_iff [OF hdr tok, of ex_db 100] ft fu ne
  have a: "get_current_user ex_db 100 (Some ''Bearer tok1'') =
      Inr \<lparr>au_id = str_oid (u_id ex_user), au_name = get_default (u_name ex_user) '''',
           au_email = get_default (u_email ex_user) ''''\<rparr>"
    by blast
  have ex: "\<exists>expires_at. t_expires_at ex_token = Some expires_at \<and> expires_at < 101"
    by (simp add: ex_token_def)
  from get_current_user_rejects_iff [OF hdr tok, of ex_db 101] ft ex
  have b: "\<exists>detail. get_current_user ex_db 101 (Some ''Bearer tok1'') = Inl (HTTPException 401 detail)"
    by blast
  have c: "get_current_user ex_db 101 (Some ''Bearer tok1'') = Inl (HTTPException 401 ''Token expired'')"
    by (simp add: get_current_user_bearer [OF hdr tok] ft ex_token_def)
  from a c show ?thesis
    by (simp add: str_oid_def get_default_def ex_user_def)
qed

text \<open>
  The claim as the spec words it (rejection when the expiry timestamp is less than or
  equal to the current time) fails where the two are equal: the token of \<open>ex_db\<close>
  expires at 100 and is accepted at 100.
\<close>

theorem expiry_equal_now_accepted:
  "find_one (token_is ''tok1'') (db_auth_token ex_db) = Some ex_token \<and>
   t_expires_at ex_token = Some 100 \<and> (100::int) \<le> 100 \<and>
   get_current_user ex_db 100 (Some ''Bearer tok1'') =
     Inr \<lparr>au_id = ''0123456789abcdef01234567'', au_name = ''Asha'', au_email = ''asha@example.com''\<rparr>"
  by (simp add: get_current_user_def ex_db_def ex_user_def ex_token_def lower_def lower_char_def
      startswith_def find_one_def token_is_def id_is_def get_default_def str_oid_def)

text \<open>
  C9. A stored token whose \<^verbatim>\<open>expires_at\<close> is absent is never rejected as expired, whatever the
  current time: resolution then depends only on whether its user exists.
\<close>

theorem token_without_expiry_never_expires:
  assumes hdr: "startswith (lower a) ''bearer ''"
    and tok: "split CHR '' '' a = x # token # rest"
    and ft: "find_one (token_is token) (db_auth_token db) = Some token_doc"
    and ne: "t_expires_at token_doc = None"
  shows "get_current_user db now (Some a) \<noteq> Inl (HTTPException 401 ''Token expired'') \<and>
         (\<forall>user. find_one (id_is (t_user_id token_doc)) (db_user db) = Some user \<longrightarrow>
            get_current_user db now (Some a) =
              Inr \<lparr>au_id = str_oid (u_id user),
                   au_name = get_default (u_name user) '''',
                   au_email = get_default (u_email user) ''''\<rparr>)"
proof (cases "find_one (id_is (t_user_id token_doc)) (db_user db)")
  case None
  then show ?thesis
    by (simp add: get_current_user_bearer [OF hdr tok] ft ne)
next
  case (Some user)
  then show ?thesis
    by (simp add: get_current_user_bearer [OF hdr tok] ft ne)
qed

theorem token_without_expiry_never_expires_witness:
  "get_current_user ex_db_forever 1000000000000000000 (Some ''Bearer tok2'') =
     Inr \<lparr>au_id = ''0123456789abcdef01234567'', au_name = ''Asha'', au_email = ''asha@example.com''\<rparr>"
proof -
  have hdr: "startswith (lower ''Bearer tok2'') ''bearer ''"
    by (simp add: startswith_def lower_def lower_char_def)
  have tok: "split CHR '' '' ''Bearer tok2'' = ''Bearer'' # ''tok2'' # []"
    by simp
  have ft: "find_one (token_is ''tok2'') (db_auth_token ex_db_forever) = Some ex_token_forever"
    by (simp add: find_one_def token_is_def ex_db_forever_def ex_token_def ex_token_forever_def)
  have ne: "t_expires_at ex_token_forever = None"
    by (simp add: ex_token_forever_def)
  have fu: "find_one (id_is (t_user_id ex_token_forever)) (db_user ex_db_forever) = Some ex_user"
    by (simp add: find_one_def id_is_def ex_db_forever_def ex_db_def ex_token_forever_def ex_user_def)
  from token_without_expiry_never_expires [OF hdr tok ft ne, of 1000000000000000000] fu
  have "get_current_user ex_db_forever 1000000000000000000 (Some ''Bearer tok2'') =
      Inr \<lparr>au_id = str_oid (u_id ex_user), au_name = get_default (u_name ex_user) '''',
           au_email = get_default (u_email ex_user) ''''\<rparr>"
    by blast
  then show ?thesis
    by (simp add: str_oid_def get_default_def ex_user_def)
qed

section \<open>Booking a session\<close>

lemma to_object_id_ex_current:
  "to_object_id (au_id ex_current) = Inr ''0123456789abcdef01234567''"
  by (simp add: to_object_id_def ex_current_def is_hex_digit_def is_space_def lower_char_def)

lemma create_session_found:
  assumes oid: "to_object_id (au_id current) = Inr oid"
    and fu: "find_one (id_is oid) (db_user db) = Some user"
  shows "create_session db env payload current =
     (let used = get_default (sessions_used user) 0;
          total = get_default (total_sessions user) 3
      in if used \<ge> total
         then (db, Inr (Limited ''Session limit reached''))
         else
           (db\<lparr>db_session := db_session db @
                 [\<lparr>s_id = sn_session_id env,
                   s_user_id = au_id current,
                   s_topic = sm_topic payload,
                   s_date = sm_date payload,
                   s_time = sm_time payload,
                   s_feedback = sm_feedback payload,
                   s_spatial_url = sm_spatial_url payload,
                   s_status = sm_status payload\<rparr>],
               db_user := update_one (id_is oid)
                   (session_updates used (pillar_inc_of (lower (sm_topic payload))) user) (db_user db),
               db_email_log := db_email_log db @
                 [\<lparr>e_id = sn_email_id env,
                   e_to = ''Jagathisraj4@gmail.com'',
                   e_subject = ''New TANA Session Request'',
                   e_body = ''User '' @ format_opt (u_name user)
                      @ '' requested a session on '' @ sm_topic payload
                      @ '' for '' @ sm_date payload @ '' '' @ sm_time payload,
                   e_created_at = sn_now env\<rparr>]\<rparr>,
            Inr (Created (str_oid (sn_session_id env)))))"
  by (simp add: create_session_def oid fu Let_def create_document_session_def)

text \<open>
  C2. When the caller's \<^verbatim>\<open>sessions_used\<close> equals \<^verbatim>\<open>total_sessions\<close>, the booking answers
  \<^verbatim>\<open>{limited: true}\<close> without raising, and the store is left as it was: no session document,
  no change to the user's counters.
\<close>

theorem create_session_limited:
  assumes oid: "to_object_id (au_id current) = Inr oid"
    and fu: "find_one (id_is oid) (db_user db) = Some user"
    and full: "get_default (sessions_used user) 0 = get_default (total_sessions user) 3"
  shows "create_session db env payload current = (db, Inr (Limited ''Session limit reached''))"
  by (simp add: create_session_found [OF oid fu] full)

theorem create_session_limited_witness:
  "create_session ex_db_full ex_session_env ex_session ex_current =
     (ex_db_full, Inr (Limited ''Session limit reached''))"
proof -
  have fu: "find_one (id_is ''0123456789abcdef01234567'') (db_user ex_db_full) = Some ex_user_full"
    by (simp add: find_one_def id_is_def ex_db_full_def ex_db_def ex_user_full_def ex_user_def)
  have full: "get_default (sessions_used ex_user_full) 0 = get_default (total_sessions ex_user_full) 3"
    by (simp add: get_default_def ex_user_full_def ex_user_def)
  from create_session_limited [OF to_object_id_ex_current fu full]
  show ?thesis .
qed

lemma u_id_set_score: "u_id (set_score f v d) = u_id d"
  by (cases f) simp_all

lemma u_id_session_updates: "u_id (session_updates used pillar_inc user d) = u_id d"
  by (simp add: session_updates_def Let_def u_id_set_score split: option.splits)

lemma session_updates_by_topic:
  "session_updates used (pillar_inc_of t) user user =
     (let u1 = user\<lparr>sessions_used := Some (used + 1)\<rparr>
      in if contains ''mind'' t
         then u1\<lparr>tana_mind := Some (get_default (tana_mind user) 0 + 1)\<rparr>
         else if contains ''money'' t
         then u1\<lparr>tana_money := Some (get_default (tana_money user) 0 + 1)\<rparr>
         else if contains ''meaning'' t
         then u1\<lparr>tana_meaning := Some (get_default (tana_meaning user) 0 + 1)\<rparr>
         else u1)"
  by (simp add: session_updates_def pillar_inc_of_def Let_def)

text \<open>
  C3. A booking below the limit persists the session (with the caller's id as its user
  reference), sets \<^verbatim>\<open>sessions_used\<close> to its old value plus 1 and raises the score of at most
  one pillar by 1: \<^verbatim>\<open>tana_mind\<close> when the lower-cased topic contains \<^verbatim>\<open>mind\<close>, else \<^verbatim>\<open>tana_money\<close>
  when it contains \<^verbatim>\<open>money\<close>, else \<^verbatim>\<open>tana_meaning\<close> when it contains \<^verbatim>\<open>meaning\<close>, and no score
  otherwise. All other fields of the user document stay as they were.
\<close>

theorem create_session_books:
  assumes oid: "to_object_id (au_id current) = Inr oid"
    and fu: "find_one (id_is oid) (db_user db) = Some user"
    and below: "get_default (sessions_used user) 0 < get_default (total_sessions user) 3"
  shows "\<exists>db'. create_session db env payload current =
            (db', Inr (Created (str_oid (sn_session_id env)))) \<and>
          db_session db' = db_session db @
            [\<lparr>s_id = sn_session_id env,
              s_user_id = au_id current,
              s_topic = sm_topic payload,
              s_date = sm_date payload,
              s_time = sm_time payload,
              s_feedback = sm_feedback payload,
              s_spatial_url = sm_spatial_url payload,
              s_status = sm_status payload\<rparr>] \<and>
          find_one (id_is oid) (db_user db') = Some
            (let u1 = user\<lparr>sessions_used := Some (get_default (sessions_used user) 0 + 1)\<rparr>;
                 topic_lower = lower (sm_topic payload)
             in if contains ''mind'' topic_lower
                then u1\<lparr>tana_mind := Some (get_default (tana_mind user) 0 + 1)\<rparr>
                else if contains ''money'' topic_lower
                then u1\<lparr>tana_money := Some (get_default (tana_money user) 0 + 1)\<rparr>
                else if contains ''meaning'' topic_lower
                then u1\<lparr>tana_meaning := Some (get_default (tana_meaning user) 0 + 1)\<rparr>
                else u1)"
proof -
  let ?used = "get_default (sessions_used user) 0"
  let ?upd = "session_updates ?used (pillar_inc_of (lower (sm_topic payload))) user"
  have keep: "\<And>d. id_is oid d \<Longrightarrow> id_is oid (?upd d)"
    by (simp add: id_is_def u_id_session_updates)
  have found: "find_one (id_is oid) (update_one (id_is oid) ?upd (db_user db)) = Some (?upd user)"
    by (simp add: find_one_update_one [of "id_is oid" ?upd, OF keep] fu)
  from below have nlim: "\<not> get_default (total_sessions user) 3 \<le> get_default (sessions_used user) 0"
    by simp
  show ?thesis
    using found
    by (simp add: create_session_found [OF oid fu] nlim Let_def session_updates_by_topic)
qed

theorem create_session_books_witness:
  "\<exists>db'. create_session ex_db ex_session_env ex_session ex_current =
            (db', Inr (Created ''cccccccccccccccccccccccc'')) \<and>
     db_session db' =
       [\<lparr>s_id = ''cccccccccccccccccccccccc'',
         s_user_id = ''0123456789abcdef01234567'',
         s_topic = ''Mind reset'',
         s_date = ''2025-01-02'',
         s_time = ''10:00'',
         s_feedback = None,
         s_spatial_url = None,
         s_status = Requested\<rparr>] \<and>
     find_one (id_is ''0123456789abcdef01234567'') (db_user db') =
       Some (ex_user\<lparr>sessions_used := Some 2, tana_mind := Some 2\<rparr>)"
proof -
  have fu: "find_one (id_is ''0123456789abcdef01234567'') (db_user ex_db) = Some ex_user"
    by (simp add: find_one_def id_is_def ex_db_def ex_user_def)
  have below: "get_default (sessions_used ex_user) 0 < get_default (total_sessions ex_user) 3"
    by (simp add: get_default_def ex_user_def)
  have mind: "contains ''mind'' (lower (sm_topic ex_session))"
    by (simp add: ex_session_def lower_def lower_char_def)
  from create_session_books [OF to_object_id_ex_current fu below, of ex_session_env ex_session]
  show ?thesis
    by (simp add: mind Let_def, simp add: ex_session_def ex_session_env_def ex_current_def ex_db_def
        ex_user_def get_default_def str_oid_def)
qed

text \<open>The example of the spec without a keyword: only \<^verbatim>\<open>sessions_used\<close> changes.\<close>

lemma pillar_inc_of_general_chat: "pillar_inc_of (lower ''general chat'') = None"
  by (simp add: pillar_inc_of_def lower_def lower_char_def)

text \<open>A topic with two keywords counts for the first of them in the order of the tests.\<close>

lemma pillar_inc_of_priority: "pillar_inc_of (lower ''Money and Mind'') = Some Tana_mind"
  by (simp add: pillar_inc_of_def lower_def lower_char_def)

text \<open>
  C10. The entry a successful booking appends to \<^verbatim>\<open>email_log\<close> is addressed to the fixed
  address \<^verbatim>\<open>Jagathisraj4@gmail.com\<close>, whoever books; its body is built from the user's name
  and the topic, date and time of the session.
\<close>

theorem create_session_email_log:
  assumes oid: "to_object_id (au_id current) = Inr oid"
    and fu: "find_one (id_is oid) (db_user db) = Some user"
    and below: "get_default (sessions_used user) 0 < get_default (total_sessions user) 3"
  shows "db_email_log (fst (create_session db env payload current)) = db_email_log db @
            [\<lparr>e_id = sn_email_id env,
              e_to = ''Jagathisraj4@gmail.com'',
              e_subject = ''New TANA Session Request'',
              e_body = ''User '' @ format_opt (u_name user)
                 @ '' requested a session on '' @ sm_topic payload
                 @ '' for '' @ sm_date payload @ '' '' @ sm_time payload,
              e_created_at = sn_now env\<rparr>]"
proof -
  from below have nlim: "\<not> get_default (total_sessions user) 3 \<le> get_default (sessions_used user) 0"
    by simp
  show ?thesis
    by (simp add: create_session_found [OF oid fu] nlim Let_def)
qed

theorem create_session_email_log_witness:
  "db_email_log (fst (create_session ex_db ex_session_env ex_session ex_current)) =
     [\<lparr>e_id = ''dddddddddddddddddddddddd'',
       e_to = ''Jagathisraj4@gmail.com'',
       e_subject = ''New TANA Session Request'',
       e_body = ''User Asha requested a session on Mind reset for 2025-01-02 10:00'',
       e_created_at = 50\<rparr>]"
proof -
  have fu: "find_one (id_is ''0123456789abcdef01234567'') (db_user ex_db) = Some ex_user"
    by (simp add: find_one_def id_is_def ex_db_def ex_user_def)
  have below: "get_default (sessions_used ex_user) 0 < get_default (total_sessions ex_user) 3"
    by (simp add: get_default_def ex_user_def)
  from create_session_email_log [OF to_object_id_ex_current fu below, of ex_session_env ex_session]
  show ?thesis
    by (simp add: ex_session_def ex_session_env_def ex_db_def ex_user_def format_opt_def)
qed

section \<open>Signing up\<close>




text \<open>
  C6. A signup whose email equals, character for character, the email of a stored user
  raises the 400 error \<^verbatim>\<open>Email already registered\<close> and leaves the store as it was: no user,
  credential or token document is added.
\<close>

theorem signup_duplicate_email:
  assumes stored: "u \<in> set (db_user db)"
    and same: "u_email u = Some (sr_email payload)"
  shows "signup hash_password db env payload =
           (db, Inl (HTTPException 400 ''Email already registered''))"
proof -
  from stored same have "find_one (email_is (sr_email payload)) (db_user db) \<noteq> None"
    by (auto simp: find_one_None_iff email_is_def)
  then show ?thesis
    by (auto simp: signup_def)
qed

theorem signup_duplicate_email_witness:
  "signup ex_hash ex_db ex_signup_env ex_signup_dup =
     (ex_db, Inl (HTTPException 400 ''Email already registered''))"
proof -
  have stored: "ex_user \<in> set (db_user ex_db)"
    by (simp add: ex_db_def)
  have same: "u_email ex_user = Some (sr_email ex_signup_dup)"
    by (simp add: ex_user_def ex_signup_dup_def ex_signup_def)
  from signup_duplicate_email [OF stored same]
  show ?thesis .
qed

text \<open>The match is case-sensitive: the same address in another case is a new user.\<close>

lemma signup_email_case_sensitive:
  "snd (signup ex_hash ex_db ex_signup_env (ex_signup\<lparr>sr_email := ''Asha@example.com''\<rparr>)) =
     Inr \<lparr>tr_token = ''tok9'', tr_user_id = ''111111111111111111111111''\<rparr>"
  by (simp add: signup_def Let_def find_one_def email_is_def valid_age_def ex_db_def ex_user_def
      ex_signup_def ex_signup_env_def str_oid_def)

section \<open>Adding a reflection\<close>

text \<open>
  C7. A reflection whose user reference differs from the caller's id raises the 403 error
  \<^verbatim>\<open>Forbidden\<close> and leaves the store as it was: no reflection document, no score changed.
\<close>

theorem add_reflection_forbidden:
  assumes other: "rm_user_id payload \<noteq> au_id current"
  shows "add_reflection db env payload current = (db, Inl (HTTPException 403 ''Forbidden''))"
  using other by (simp add: add_reflection_def)

theorem add_reflection_forbidden_witness:
  "add_reflection ex_db ex_reflection_env ex_reflection_other ex_current =
     (ex_db, Inl (HTTPException 403 ''Forbidden''))"
proof -
  have other: "rm_user_id ex_reflection_other \<noteq> au_id ex_current"
    by (simp add: ex_reflection_other_def ex_reflection_def ex_current_def)
  from add_reflection_forbidden [OF other]
  show ?thesis .
qed

lemma add_reflection_own:
  assumes own: "rm_user_id payload = au_id current"
    and oid: "to_object_id (au_id current) = Inr oid"
  shows "add_reflection db env payload current =
     (let docs = db_reflection db @
            [\<lparr>r_id = rn_reflection_id env,
              r_user_id = rm_user_id payload,
              r_pillar = rm_pillar payload,
              r_entry_text = rm_entry_text payload,
              r_mood = rm_mood payload,
              r_created_at = Some (rn_now env)\<rparr>];
          db1 = db\<lparr>db_reflection := docs\<rparr>
      in case find_one (id_is oid) (db_user db) of
           None \<Rightarrow> (db1, Inr (Created (str_oid (rn_reflection_id env))))
         | Some user \<Rightarrow>
             (case pillar_map (rm_pillar payload) of
                None \<Rightarrow> (db1, Inr (Created (str_oid (rn_reflection_id env))))
              | Some field \<Rightarrow>
                  (db1\<lparr>db_user := update_one (id_is oid)
                          (set_score field (get_default (get_score field user) 0 + 1))
                          (db_user db)\<rparr>,
                   Inr (Created (str_oid (rn_reflection_id env))))))"
  by (simp add: add_reflection_def own oid Let_def create_document_reflection_def
      split: option.splits)

text \<open>
  C8. A reflection of the caller's own is persisted with the server's clock reading as its
  creation timestamp, and the request succeeds. When the caller's user document is found,
  the score that belongs to the reflection's pillar is raised by 1 and nothing else in the
  document changes; when it is not found, no user document changes and the reflection
  stays persisted.
\<close>

theorem add_reflection_persists:
  assumes own: "rm_user_id payload = au_id current"
    and oid: "to_object_id (au_id current) = Inr oid"
  shows "\<exists>db'. add_reflection db env payload current =
            (db', Inr (Created (str_oid (rn_reflection_id env)))) \<and>
          db_reflection db' = db_reflection db @
            [\<lparr>r_id = rn_reflection_id env,
              r_user_id = rm_user_id payload,
              r_pillar = rm_pillar payload,
              r_entry_text = rm_entry_text payload,
              r_mood = rm_mood payload,
              r_created_at = Some (rn_now env)\<rparr>] \<and>
          (case find_one (id_is oid) (db_user db) of
             None \<Rightarrow> db_user db' = db_user db
           | Some user \<Rightarrow>
               find_one (id_is oid) (db_user db') = Some
                 (case rm_pillar payload of
                    Mind \<Rightarrow> user\<lparr>tana_mind := Some (get_default (tana_mind user) 0 + 1)\<rparr>
                  | Money \<Rightarrow> user\<lparr>tana_money := Some (get_default (tana_money user) 0 + 1)\<rparr>
                  | Meaning \<Rightarrow> user\<lparr>tana_meaning := Some (get_default (tana_meaning user) 0 + 1)\<rparr>))"
proof (cases "find_one (id_is oid) (db_user db)")
  case None
  then show ?thesis
    by (simp add: add_reflection_own [OF own oid] Let_def)
next
  case (Some user)
  have keep: "\<And>f v d. id_is oid d \<Longrightarrow> id_is oid (set_score f v d)"
    by (simp add: id_is_def u_id_set_score)
  have found: "\<And>f v. find_one (id_is oid) (update_one (id_is oid) (set_score f v) (db_user db)) =
      Some (set_score f v user)"
    by (simp add: find_one_update_one [of "id_is oid", OF keep] Some)
  show ?thesis
    by (cases "rm_pillar payload") (simp_all add: add_reflection_own [OF own oid] Let_def Some found)
qed

theorem add_reflection_persists_witness:
  "(\<exists>db'. add_reflection ex_db ex_reflection_env ex_reflection ex_current =
            (db', Inr (Created ''eeeeeeeeeeeeeeeeeeeeeeee'')) \<and>
      db_reflection db' =
        [\<lparr>r_id = ''eeeeeeeeeeeeeeeeeeeeeeee'',
          r_user_id = ''0123456789abcdef01234567'',
          r_pillar = Money,
          r_entry_text = ''Saved a little'',
          r_mood = None,
          r_created_at = Some 60\<rparr>] \<and>
      find_one (id_is ''0123456789abcdef01234567'') (db_user db') =
        Some (ex_user\<lparr>tana_money := Some 2\<rparr>))"
proof -
  have own: "rm_user_id ex_reflection = au_id ex_current"
    by (simp add: ex_reflection_def ex_current_def)
  have fu: "find_one (id_is ''0123456789abcdef01234567'') (db_user ex_db) = Some ex_user"
    by (simp add: find_one_def id_is_def ex_db_def ex_user_def)
  from add_reflection_persists [OF own to_object_id_ex_current, of ex_db ex_reflection_env]
  show ?thesis
    by (simp add: fu, simp add: ex_reflection_def ex_reflection_env_def ex_db_def ex_user_def
        get_default_def str_oid_def)
qed

text \<open>The same request when the user document is gone: it succeeds and only adds the reflection.\<close>

lemma add_reflection_user_missing:
  "add_reflection ex_db_no_user ex_reflection_env ex_reflection ex_current =
     (ex_db_no_user\<lparr>db_reflection :=
         [\<lparr>r_id = ''eeeeeeeeeeeeeeeeeeeeeeee'',
           r_user_id = ''0123456789abcdef01234567'',
           r_pillar = Money,
           r_entry_text = ''Saved a little'',
           r_mood = None,
           r_created_at = Some 60\<rparr>]\<rparr>,
      Inr (Created ''eeeeeeeeeeeeeeeeeeeeeeee''))"
proof -
  have own: "rm_user_id ex_reflection = au_id ex_current"
    by (simp add: ex_reflection_def ex_current_def)
  have nf: "find_one (id_is ''0123456789abcdef01234567'') (db_user ex_db_no_user) = None"
    by (simp add: find_one_def ex_db_no_user_def)
  show ?thesis
    by (simp add: add_reflection_own [OF own to_object_id_ex_current] nf Let_def)
       (simp add: ex_reflection_def ex_reflection_env_def ex_db_no_user_def ex_db_def str_oid_def)
qed

section \<open>The dashboard\<close>

subsection \<open>Rounding to binary64\<close>

text \<open>
  Rounding to an integer errs by at most one half; \<open>binade\<close> brackets its argument between
  two powers of two; hence \<open>to_double\<close> has a relative error of at most \<open>2 powi (- 53)\<close> on
  the normal range.
\<close>

lemma round_half_even_error: "\<bar>of_int (round_half_even y) - y\<bar> \<le> 1 / 2"
proof -
  have "of_int \<lfloor>y\<rfloor> \<le> y" "y < of_int \<lfloor>y\<rfloor> + 1"
    by linarith+
  then show ?thesis
    by (auto simp: round_half_even_def Let_def)
qed

lemma powi_neg_nat: "(2::rat) powi (- int k) = inverse (2 ^ k)"
  by (simp add: power_int_minus)

lemma powi_nat: "(2::rat) powi (int k) = 2 ^ k"
  by simp

lemma binade_lower:
  assumes "0 < x"
  shows "2 powi (binade x) \<le> x"
proof (cases "1 \<le> x")
  case True
  define n where "n = nat \<lfloor>x\<rfloor>"
  have n1: "1 \<le> n" using True by (simp add: n_def le_nat_iff)
  have "2 ^ (floorlog 2 n - 1) \<le> n"
    using floorlog_bounds [of n 2] n1 by simp
  then have "(2::rat) ^ (floorlog 2 n - 1) \<le> of_nat n"
    by (metis of_nat_le_iff of_nat_numeral of_nat_power)
  also have "(of_nat n :: rat) = of_int \<lfloor>x\<rfloor>"
    using True by (simp add: n_def)
  also have "\<dots> \<le> x" by simp
  finally have "(2::rat) ^ (floorlog 2 n - 1) \<le> x" .
  moreover have "1 \<le> floorlog 2 n"
    using n1 by (simp add: floorlog_def)
  then have "binade x = int (floorlog 2 n - 1)"
    using True by (simp add: binade_def n_def)
  ultimately show ?thesis
    by (simp only: powi_nat)
next
  case False
  define c where "c = \<lceil>1 / x\<rceil>"
  define n where "n = nat (c - 1)"
  from False assms have y1: "1 < 1 / x" by simp
  then have c2: "2 \<le> c" unfolding c_def by linarith
  have "n < 2 ^ floorlog 2 n"
    using floorlog_bounds [of n 2] c2 by (simp add: n_def)
  then have "int n < 2 ^ floorlog 2 n"
    by (metis of_nat_less_iff of_nat_numeral of_nat_power)
  then have "c \<le> 2 ^ floorlog 2 n"
    using c2 by (simp add: n_def)
  then have a: "(of_int c :: rat) \<le> 2 ^ floorlog 2 n"
    by (metis of_int_le_iff of_int_numeral of_int_power)
  have b: "1 / x \<le> of_int c"
    unfolding c_def by linarith
  from b a have "1 / x \<le> 2 ^ floorlog 2 n" by (rule order_trans)
  then have "1 \<le> 2 ^ floorlog 2 n * x"
    using assms by (simp add: field_simps)
  then have "inverse (2 ^ floorlog 2 n) \<le> x"
    by (simp add: field_simps)
  moreover have "binade x = - int (floorlog 2 n)"
    using False by (simp add: binade_def n_def c_def)
  ultimately show ?thesis
    by (simp only: powi_neg_nat)
qed

lemma binade_upper:
  assumes "0 < x"
  shows "x < 2 powi (binade x + 1)"
proof (cases "1 \<le> x")
  case True
  define n where "n = nat \<lfloor>x\<rfloor>"
  have n1: "1 \<le> n" using True by (simp add: n_def le_nat_iff)
  have k1: "1 \<le> floorlog 2 n"
    using n1 by (simp add: floorlog_def)
  have "n < 2 ^ floorlog 2 n"
    using floorlog_bounds [of n 2] n1 by simp
  then have "int n < 2 ^ floorlog 2 n"
    by (metis of_nat_less_iff of_nat_numeral of_nat_power)
  then have "\<lfloor>x\<rfloor> + 1 \<le> 2 ^ floorlog 2 n"
    using True by (simp add: n_def)
  then have a: "(of_int (\<lfloor>x\<rfloor> + 1) :: rat) \<le> 2 ^ floorlog 2 n"
    by (metis of_int_le_iff of_int_numeral of_int_power)
  have b: "x < of_int (\<lfloor>x\<rfloor> + 1)" by linarith
  from b a have "x < 2 ^ floorlog 2 n" by (rule less_le_trans)
  moreover have "binade x + 1 = int (floorlog 2 n)"
    using True k1 by (simp add: binade_def n_def)
  ultimately show ?thesis
    by (simp only: powi_nat)
next
  case False
  define c where "c = \<lceil>1 / x\<rceil>"
  define n where "n = nat (c - 1)"
  from False assms have y1: "1 < 1 / x" by simp
  then have c2: "2 \<le> c" unfolding c_def by linarith
  have n1: "1 \<le> n" using c2 by (simp add: n_def)
  have k1: "1 \<le> floorlog 2 n"
    using n1 by (simp add: floorlog_def)
  have "2 ^ (floorlog 2 n - 1) \<le> n"
    using floorlog_bounds [of n 2] n1 by simp
  then have "(2::int) ^ (floorlog 2 n - 1) \<le> int n"
    by (metis of_nat_le_iff of_nat_numeral of_nat_power)
  then have "(2::int) ^ (floorlog 2 n - 1) \<le> c - 1"
    using c2 by (simp add: n_def)
  then have a: "(2::rat) ^ (floorlog 2 n - 1) \<le> of_int (c - 1)"
    by (metis of_int_le_iff of_int_numeral of_int_power)
  have b: "of_int (c - 1) < 1 / x"
    unfolding c_def by linarith
  from a b have "(2::rat) ^ (floorlog 2 n - 1) < 1 / x" by (rule le_less_trans)
  then have "2 ^ (floorlog 2 n - 1) * x < 1"
    using assms by (simp add: field_simps)
  then have "x < inverse (2 ^ (floorlog 2 n - 1))"
    by (simp add: field_simps)
  moreover have "binade x + 1 = - int (floorlog 2 n - 1)"
    using False k1 by (simp add: binade_def n_def c_def)
  ultimately show ?thesis
    by (simp only: powi_neg_nat)
qed

lemma powi_less_cancel:
  assumes "(2::rat) powi a < 2 powi c"
  shows "a < c"
proof (rule ccontr)
  assume "\<not> a < c"
  then have "c \<le> a" by simp
  then have "(2::rat) powi c \<le> 2 powi a"
    by (rule power_int_increasing) simp
  with assms show False by simp
qed

lemma to_double_error:
  assumes lo: "2 powi (- 1022) \<le> (x::rat)"
    and hi: "x < 2 powi 1023"
  shows "\<exists>y::rat. to_double x = Some y \<and> \<bar>y - x\<bar> \<le> x * 2 powi (- 53)"
proof -
  have pos: "0 < x"
    using lo zero_less_power_int [of "2::rat" "- 1022"] by linarith
  define b where "b = binade x"
  define e where "e = b - 52"
  define z where "z = x / 2 powi e"
  define y :: rat where "y = of_int (round_half_even z) * 2 powi e"
  have bl: "2 powi b \<le> x" unfolding b_def using pos by (rule binade_lower)
  have bu: "x < 2 powi (b + 1)" unfolding b_def using pos by (rule binade_upper)
  from lo bu have "(2::rat) powi (- 1022) < 2 powi (b + 1)" by (rule le_less_trans)
  then have "- 1022 < b + 1" by (rule powi_less_cancel)
  then have emax: "max (binade \<bar>x\<bar> - 52) (- 1074) = e"
    using pos by (simp add: e_def b_def)
  have pe: "0 < (2::rat) powi e" by simp
  have xz: "x = z * 2 powi e"
    using pe by (simp add: z_def)
  have "y - x = (of_int (round_half_even z) - z) * 2 powi e"
    by (simp add: y_def xz algebra_simps)
  then have "\<bar>y - x\<bar> = \<bar>of_int (round_half_even z) - z\<bar> * 2 powi e"
    using pe by (simp add: abs_mult)
  also have "\<dots> \<le> (1 / 2) * 2 powi e"
    using round_half_even_error [of z] pe by (simp add: mult_right_mono)
  also have "(2::rat) powi e = 2 powi b * 2 powi (- 52)"
    unfolding e_def by (simp add: power_int_diff)
  also have "(1 / 2) * (2 powi b * 2 powi (- 52)) = 2 powi b * (2::rat) powi (- 53)"
    by (simp add: power_int_minus)
  also have "\<dots> \<le> x * 2 powi (- 53)"
    using bl by (simp add: mult_right_mono)
  finally have err: "\<bar>y - x\<bar> \<le> x * 2 powi (- 53)" .
  have "(2::rat) powi (- 53) \<le> 1"
    by (simp add: power_int_minus)
  then have "x * 2 powi (- 53) \<le> x"
    using pos by (simp add: mult_left_le)
  with err have "\<bar>y\<bar> \<le> 2 * x" by linarith
  also have "2 * x < 2 * 2 powi 1023" using hi by simp
  also have "2 * (2::rat) powi 1023 = 2 powi 1024" by simp
  finally have fin: "\<bar>y\<bar> < 2 powi 1024" .
  have "to_double x = Some y"
    using pos fin unfolding to_double_def Let_def emax y_def z_def by simp
  with err show ?thesis by blast
qed

subsection \<open>Percentages\<close>

text \<open>
  Two roundings to binary64 and the final rounding to an integer still give a nearest
  integer of the exact quotient as long as the denominator is below \<open>2 ^ 44\<close>: the
  accumulated error then stays below the distance \<open>1 / (2 * t)\<close> that separates the quotient
  from the nearest tie it does not hit. At a tie of the exact quotient both neighbours are
  nearest and either may result: the float that is rounded at the end need not be the tie.
  1 of 8 (exactly 12.5) gives 12, the even neighbour (\<open>percentage_tie\<close>); 23 of 40 (exactly
  57.5) gives 57, the odd one (\<open>percentage_tie_odd\<close>), since the float is just below 57.5.
\<close>

lemma powi_m53: "(2::rat) powi (- 53) = 1 / 2 ^ 53"
  by (simp add: power_int_minus_divide)

lemma percentage_zero:
  assumes "t \<noteq> 0"
  shows "percentage 0 t = Inr 0"
  using assms by (simp add: percentage_def to_double_def round_half_even_def)

lemma percentage_nearest:
  assumes m0: "0 \<le> m" and mt: "m \<le> t" and t1: "1 \<le> t" and tb: "t < 2 ^ 44"
  shows "\<exists>p. percentage m t = Inr p \<and>
           \<bar>of_int p - 100 * of_int m / of_int t\<bar> \<le> (1 / 2 :: rat)"
proof (cases "m = 0")
  case True
  with t1 show ?thesis by (simp add: percentage_zero)
next
  case False
  with m0 have m1: "1 \<le> m" by simp
  define x :: rat where "x = of_int m / of_int t"
  have tpos: "(0::rat) < of_int t" using t1 by simp
  have xt: "x * of_int t = of_int m" using tpos by (simp add: x_def)
  have x_le: "x \<le> 1" using mt tpos by (simp add: x_def)
  have tb': "(of_int t :: rat) < 2 ^ 44"
    using tb by (metis of_int_less_iff of_int_numeral of_int_power)
  have "(1::rat) \<le> of_int m" using m1 by simp
  then have "1 \<le> x * of_int t" by (simp add: xt)
  also have "x * of_int t \<le> x * 2 ^ 44"
  proof (rule mult_left_mono)
    show "(of_int t :: rat) \<le> 2 ^ 44" using tb' by simp
    show "0 \<le> x" using m0 tpos by (simp add: x_def)
  qed
  finally have "1 \<le> x * 2 ^ 44" .
  then have x_ge: "1 / 2 ^ 44 \<le> x" by (simp only: pos_divide_le_eq zero_less_power zero_less_numeral)
  have "(0::rat) < 1 / 2 ^ 44" by simp
  from this x_ge have xpos: "0 < x" by (rule less_le_trans)
  have p1022: "(2::rat) powi (- 1022) \<le> 1 / 2 ^ 50"
  proof -
    have "(2::rat) powi (- 1022) \<le> 2 powi (- 50)"
      by (rule power_int_increasing) simp_all
    then show ?thesis by (simp add: power_int_minus_divide)
  qed
  have p1023: "(256::rat) \<le> 2 powi 1023"
  proof -
    have "(2::rat) powi 8 \<le> 2 powi 1023"
      by (rule power_int_increasing) simp_all
    then show ?thesis by simp
  qed
  have lo1: "2 powi (- 1022) \<le> x" using p1022 x_ge by simp
  have hi1: "x < 2 powi 1023" using p1023 x_le by linarith
  from to_double_error [OF lo1 hi1]
  obtain y1 where y1: "to_double x = Some y1" and e1: "\<bar>y1 - x\<bar> \<le> x * 2 powi (- 53)"
    by blast
  from e1 have e1': "\<bar>y1 - x\<bar> \<le> x / 2 ^ 53" by (simp add: powi_m53)
  have "x / 2 ^ 53 \<le> x / 2" using xpos by (simp add: field_simps)
  with e1' have y1_lo: "x / 2 \<le> y1" by linarith
  have "x / 2 ^ 53 \<le> 1 / 2 ^ 53" using x_le by (simp add: divide_right_mono)
  with e1' x_le have y1_hi: "y1 \<le> 1 + 1 / 2 ^ 53" by linarith
  define x2 where "x2 = y1 * 100"
  have x2_lo: "50 / 2 ^ 44 \<le> x2" using y1_lo x_ge by (simp add: x2_def)
  have x2_hi: "x2 \<le> 101" using y1_hi by (simp add: x2_def)
  have lo2: "2 powi (- 1022) \<le> x2" using p1022 x2_lo by simp
  have hi2: "x2 < 2 powi 1023" using p1023 x2_hi by linarith
  from to_double_error [OF lo2 hi2]
  obtain y2 where y2: "to_double x2 = Some y2" and e2: "\<bar>y2 - x2\<bar> \<le> x2 * 2 powi (- 53)"
    by blast
  have "x2 * 2 powi (- 53) \<le> 101 / 2 ^ 53"
    using x2_hi by (simp add: powi_m53 divide_right_mono)
  with e2 have e2': "\<bar>y2 - x2\<bar> \<le> 101 / 2 ^ 53" by linarith
  have "x2 - 100 * x = 100 * (y1 - x)" by (simp add: x2_def)
  then have "\<bar>x2 - 100 * x\<bar> = 100 * \<bar>y1 - x\<bar>" by (simp only: abs_mult abs_numeral)
  also have "\<dots> \<le> 100 * (x / 2 ^ 53)" using e1' by simp
  also have "\<dots> \<le> 100 / 2 ^ 53" using x_le by (simp add: divide_right_mono)
  finally have e3: "\<bar>x2 - 100 * x\<bar> \<le> 100 / 2 ^ 53" .
  define p where "p = round_half_even y2"
  have perc: "percentage m t = Inr p"
    using t1 y1 y2 by (simp add: percentage_def x_def [symmetric] x2_def [symmetric] p_def)
  have e4: "\<bar>of_int p - y2\<bar> \<le> 1 / 2"
    unfolding p_def by (rule round_half_even_error)
  from e4 e2' e3 have e5: "\<bar>of_int p - 100 * x\<bar> \<le> 1 / 2 + 201 / 2 ^ 53"
    by linarith
  have tabs: "\<bar>of_int t :: rat\<bar> = of_int t" using tpos by simp
  have "(of_int p - 100 * x) * of_int t = of_int p * of_int t - 100 * (x * of_int t)"
    by (simp add: algebra_simps)
  then have "\<bar>of_int p * of_int t - 100 * (x * of_int t)\<bar> = \<bar>of_int p - 100 * x\<bar> * \<bar>of_int t :: rat\<bar>"
    by (simp only: abs_mult [symmetric])
  then have "\<bar>of_int p - 100 * x\<bar> * of_int t = \<bar>of_int p * of_int t - 100 * (x * of_int t)\<bar>"
    by (simp only: tabs)
  also have "\<dots> = \<bar>of_int (p * t - 100 * m)\<bar>"
    by (simp add: xt)
  finally have eq: "\<bar>of_int p - 100 * x\<bar> * of_int t = \<bar>of_int (p * t - 100 * m)\<bar>" .
  have "\<bar>of_int p - 100 * x\<bar> * of_int t \<le> (1 / 2 + 201 / 2 ^ 53) * of_int t"
    using e5 tpos by (rule_tac mult_right_mono) simp_all
  also have "\<dots> < of_int t / 2 + 1 / 2"
    using tb' by simp
  finally have "\<bar>(of_int (p * t - 100 * m) :: rat)\<bar> < of_int t / 2 + 1 / 2"
    by (simp only: eq)
  then have "(of_int (2 * \<bar>p * t - 100 * m\<bar>) :: rat) < of_int (t + 1)"
    by simp
  then have "2 * \<bar>p * t - 100 * m\<bar> < t + 1"
    by (simp only: of_int_less_iff)
  then have "2 * \<bar>p * t - 100 * m\<bar> \<le> t" by simp
  then have "(of_int (2 * \<bar>p * t - 100 * m\<bar>) :: rat) \<le> of_int t"
    by (simp only: of_int_le_iff)
  then have "\<bar>(of_int (p * t - 100 * m) :: rat)\<bar> \<le> of_int t / 2" by simp
  then have "\<bar>of_int p - 100 * x\<bar> * of_int t \<le> (1 / 2) * of_int t"
    by (simp add: eq)
  then have "\<bar>of_int p - 100 * x\<bar> \<le> 1 / 2"
    using tpos by (rule_tac mult_right_le_imp_le)
  then have "\<bar>of_int p - 100 * of_int m / of_int t\<bar> \<le> (1 / 2 :: rat)"
    by (simp add: x_def)
  with perc show ?thesis by blast
qed

lemma percentage_tie: "percentage 1 8 = Inr 12"
  by code_simp

lemma percentage_tie_odd: "percentage 23 40 = Inr 57"
  by code_simp

lemma percentage_huge_mind: "percentage 52138204283464 65582646897439 = Inr 80"
  by code_simp

lemma percentage_huge_money: "percentage 13444442613975 65582646897439 = Inr 21"
  by code_simp

lemma dashboard_found:
  assumes oid: "to_object_id (au_id current) = Inr oid"
    and fu: "find_one (id_is oid) (db_user db) = Some user"
    and pm: "percentage (get_default (tana_mind user) 0)
               (max (get_default (tana_mind user) 0 + get_default (tana_money user) 0
                  + get_default (tana_meaning user) 0) 1) = Inr p_mind"
    and po: "percentage (get_default (tana_money user) 0)
               (max (get_default (tana_mind user) 0 + get_default (tana_money user) 0
                  + get_default (tana_meaning user) 0) 1) = Inr p_money"
    and pe: "percentage (get_default (tana_meaning user) 0)
               (max (get_default (tana_mind user) 0 + get_default (tana_money user) 0
                  + get_default (tana_meaning user) 0) 1) = Inr p_meaning"
  shows "dashboard db current =
     Inr \<lparr>dv_name = get_default (u_name user) '''',
          dv_purpose = get_default (u_purpose user) Healing,
          dv_tana =
            \<lparr>tv_mind = get_default (tana_mind user) 0,
             tv_money = get_default (tana_money user) 0,
             tv_meaning = get_default (tana_meaning user) 0,
             tv_percentages =
               \<lparr>pc_mind = p_mind, pc_money = p_money, pc_meaning = p_meaning\<rparr>\<rparr>,
          dv_sessions =
            \<lparr>sv_used = get_default (sessions_used user) 0,
             sv_total = get_default (total_sessions user) 3\<rparr>\<rparr>"
  by (simp add: dashboard_def oid fu Let_def pm po pe)

text \<open>
  C4 (as amended). For a user whose three pillar scores are non-negative and sum to less
  than \<open>2 ^ 44\<close>, the dashboard answers without an error, and each percentage is an integer
  nearest to the pillar's score divided by \<open>max (sum of the scores) 1\<close>, times 100: it
  differs from that quotient by at most one half. With all scores 0 this gives 0, 0, 0;
  with scores 1, 1, 2 it gives 25, 25, 50.
\<close>

theorem dashboard_percentages:
  assumes oid: "to_object_id (au_id current) = Inr oid"
    and fu: "find_one (id_is oid) (db_user db) = Some user"
    and mind: "get_default (tana_mind user) 0 = mind"
    and money: "get_default (tana_money user) 0 = money"
    and meaning: "get_default (tana_meaning user) 0 = meaning"
    and nonneg: "0 \<le> mind" "0 \<le> money" "0 \<le> meaning"
    and small: "mind + money + meaning < 2 ^ 44"
  shows "\<exists>p_mind p_money p_meaning.
          dashboard db current =
            Inr \<lparr>dv_name = get_default (u_name user) '''',
                 dv_purpose = get_default (u_purpose user) Healing,
                 dv_tana =
                   \<lparr>tv_mind = mind,
                    tv_money = money,
                    tv_meaning = meaning,
                    tv_percentages =
                      \<lparr>pc_mind = p_mind, pc_money = p_money, pc_meaning = p_meaning\<rparr>\<rparr>,
                 dv_sessions =
                   \<lparr>sv_used = get_default (sessions_used user) 0,
                    sv_total = get_default (total_sessions user) 3\<rparr>\<rparr> \<and>
          \<bar>of_int p_mind - 100 * of_int mind / of_int (max (mind + money + meaning) 1)\<bar>
             \<le> (1 / 2 :: rat) \<and>
          \<bar>of_int p_money - 100 * of_int money / of_int (max (mind + money + meaning) 1)\<bar>
             \<le> (1 / 2 :: rat) \<and>
          \<bar>of_int p_meaning - 100 * of_int meaning / of_int (max (mind + money + meaning) 1)\<bar>
             \<le> (1 / 2 :: rat)"
proof -
  define tot where "tot = max (mind + money + meaning) 1"
  have t1: "1 \<le> tot" by (simp add: tot_def)
  have tb: "tot < 2 ^ 44" using small by (simp add: tot_def)
  have le: "mind \<le> tot" "money \<le> tot" "meaning \<le> tot"
    using nonneg by (simp_all add: tot_def)
  from percentage_nearest [OF nonneg(1) le(1) t1 tb]
  obtain p_mind where pm: "percentage mind tot = Inr p_mind"
    and em: "\<bar>of_int p_mind - 100 * of_int mind / of_int tot\<bar> \<le> (1 / 2 :: rat)"
    by blast
  from percentage_nearest [OF nonneg(2) le(2) t1 tb]
  obtain p_money where po: "percentage money tot = Inr p_money"
    and eo: "\<bar>of_int p_money - 100 * of_int money / of_int tot\<bar> \<le> (1 / 2 :: rat)"
    by blast
  from percentage_nearest [OF nonneg(3) le(3) t1 tb]
  obtain p_meaning where pe: "percentage meaning tot = Inr p_meaning"
    and ee: "\<bar>of_int p_meaning - 100 * of_int meaning / of_int tot\<bar> \<le> (1 / 2 :: rat)"
    by blast
  have "dashboard db current =
     Inr \<lparr>dv_name = get_default (u_name user) '''',
          dv_purpose = get_default (u_purpose user) Healing,
          dv_tana =
            \<lparr>tv_mind = mind,
             tv_money = money,
             tv_meaning = meaning,
             tv_percentages =
               \<lparr>pc_mind = p_mind, pc_money = p_money, pc_meaning = p_meaning\<rparr>\<rparr>,
          dv_sessions =
            \<lparr>sv_used = get_default (sessions_used user) 0,
             sv_total = get_default (total_sessions user) 3\<rparr>\<rparr>"
    using dashboard_found [OF oid fu, of p_mind p_money p_meaning] pm po pe
    by (simp add: mind money meaning tot_def)
  with em eo ee show ?thesis
    unfolding tot_def by blast
qed

lemma nearest_int_unique:
  assumes "\<bar>of_int p - (of_int k :: rat)\<bar> \<le> 1 / 2"
  shows "p = k"
proof -
  from assms have "\<bar>of_int (p - k) :: rat\<bar> < 1" by simp
  then have "(of_int \<bar>p - k\<bar> :: rat) < of_int 1" by simp
  then have "\<bar>p - k\<bar> < 1" by (simp only: of_int_less_iff)
  then show ?thesis by simp
qed

theorem dashboard_percentages_witness:
  "dashboard ex_db ex_current =
     Inr \<lparr>dv_name = ''Asha'',
          dv_purpose = Growth,
          dv_tana =
            \<lparr>tv_mind = 1, tv_money = 1, tv_meaning = 2,
             tv_percentages = \<lparr>pc_mind = 25, pc_money = 25, pc_meaning = 50\<rparr>\<rparr>,
          dv_sessions = \<lparr>sv_used = 1, sv_total = 3\<rparr>\<rparr> \<and>
   dashboard ex_db_zero ex_current =
     Inr \<lparr>dv_name = ''Asha'',
          dv_purpose = Growth,
          dv_tana =
            \<lparr>tv_mind = 0, tv_money = 0, tv_meaning = 0,
             tv_percentages = \<lparr>pc_mind = 0, pc_money = 0, pc_meaning = 0\<rparr>\<rparr>,
          dv_sessions = \<lparr>sv_used = 1, sv_total = 3\<rparr>\<rparr>"
proof
  have fu: "find_one (id_is ''0123456789abcdef01234567'') (db_user ex_db) = Some ex_user"
    by (simp add: find_one_def id_is_def ex_db_def ex_user_def)
  have sc: "get_default (tana_mind ex_user) 0 = 1" "get_default (tana_money ex_user) 0 = 1"
    "get_default (tana_meaning ex_user) 0 = 2"
    by (simp_all add: get_default_def ex_user_def)
  from dashboard_percentages [OF to_object_id_ex_current fu sc]
  obtain p_mind p_money p_meaning where
    d: "dashboard ex_db ex_current =
          Inr \<lparr>dv_name = get_default (u_name ex_user) '''',
               dv_purpose = get_default (u_purpose ex_user) Healing,
               dv_tana =
                 \<lparr>tv_mind = 1, tv_money = 1, tv_meaning = 2,
                  tv_percentages =
                    \<lparr>pc_mind = p_mind, pc_money = p_money, pc_meaning = p_meaning\<rparr>\<rparr>,
               dv_sessions =
                 \<lparr>sv_used = get_default (sessions_used ex_user) 0,
                  sv_total = get_default (total_sessions ex_user) 3\<rparr>\<rparr>"
    and em: "\<bar>of_int p_mind - (of_int 25 :: rat)\<bar> \<le> 1 / 2"
    and eo: "\<bar>of_int p_money - (of_int 25 :: rat)\<bar> \<le> 1 / 2"
    and ee: "\<bar>of_int p_meaning - (of_int 50 :: rat)\<bar> \<le> 1 / 2"
    by auto
  have "p_mind = 25" "p_money = 25" "p_meaning = 50"
    using nearest_int_unique [OF em] nearest_int_unique [OF eo] nearest_int_unique [OF ee]
    by simp_all
  with d show "dashboard ex_db ex_current =
     Inr \<lparr>dv_name = ''Asha'',
          dv_purpose = Growth,
          dv_tana =
            \<lparr>tv_mind = 1, tv_money = 1, tv_meaning = 2,
             tv_percentages = \<lparr>pc_mind = 25, pc_money = 25, pc_meaning = 50\<rparr>\<rparr>,
          dv_sessions = \<lparr>sv_used = 1, sv_total = 3\<rparr>\<rparr>"
    by (simp add: get_default_def ex_user_def)
next
  have fu: "find_one (id_is ''0123456789abcdef01234567'') (db_user ex_db_zero) = Some ex_user_zero"
    by (simp add: find_one_def id_is_def ex_db_zero_def ex_db_def ex_user_zero_def ex_user_def)
  have sc: "get_default (tana_mind ex_user_zero) 0 = 0" "get_default (tana_money ex_user_zero) 0 = 0"
    "get_default (tana_meaning ex_user_zero) 0 = 0"
    by (simp_all add: get_default_def ex_user_zero_def ex_user_def)
  from dashboard_percentages [OF to_object_id_ex_current fu sc]
  obtain p_mind p_money p_meaning where
    d: "dashboard ex_db_zero ex_current =
          Inr \<lparr>dv_name = get_default (u_name ex_user_zero) '''',
               dv_purpose = get_default (u_purpose ex_user_zero) Healing,
               dv_tana =
                 \<lparr>tv_mind = 0, tv_money = 0, tv_meaning = 0,
                  tv_percentages =
                    \<lparr>pc_mind = p_mind, pc_money = p_money, pc_meaning = p_meaning\<rparr>\<rparr>,
               dv_sessions =
                 \<lparr>sv_used = get_default (sessions_used ex_user_zero) 0,
                  sv_total = get_default (total_sessions ex_user_zero) 3\<rparr>\<rparr>"
    and em: "\<bar>of_int p_mind - (of_int 0 :: rat)\<bar> \<le> 1 / 2"
    and eo: "\<bar>of_int p_money - (of_int 0 :: rat)\<bar> \<le> 1 / 2"
    and ee: "\<bar>of_int p_meaning - (of_int 0 :: rat)\<bar> \<le> 1 / 2"
    by auto
  have "p_mind = 0" "p_money = 0" "p_meaning = 0"
    using nearest_int_unique [OF em] nearest_int_unique [OF eo] nearest_int_unique [OF ee]
    by simp_all
  with d show "dashboard ex_db_zero ex_current =
     Inr \<lparr>dv_name = ''Asha'',
          dv_purpose = Growth,
          dv_tana =
            \<lparr>tv_mind = 0, tv_money = 0, tv_meaning = 0,
             tv_percentages = \<lparr>pc_mind = 0, pc_money = 0, pc_meaning = 0\<rparr>\<rparr>,
          dv_sessions = \<lparr>sv_used = 1, sv_total = 3\<rparr>\<rparr>"
    by (simp add: get_default_def ex_user_zero_def ex_user_def)
qed

text \<open>
  Without the bound the claim fails: the scores of \<open>ex_user_huge\<close> sum to
  65582646897439; the share of \<^verbatim>\<open>tana_mind\<close> lies below 79.5, and the double arithmetic
  rounds it to 80.
\<close>

theorem dashboard_huge_scores_not_nearest:
  "dashboard ex_db_huge ex_current =
     Inr \<lparr>dv_name = ''Asha'',
          dv_purpose = Growth,
          dv_tana =
            \<lparr>tv_mind = 52138204283464, tv_money = 13444442613975, tv_meaning = 0,
             tv_percentages = \<lparr>pc_mind = 80, pc_money = 21, pc_meaning = 0\<rparr>\<rparr>,
          dv_sessions = \<lparr>sv_used = 1, sv_total = 3\<rparr>\<rparr> \<and>
   (100 * 52138204283464 / 65582646897439 :: rat) < 79 + 1 / 2 \<and>
   (1 / 2 :: rat) < \<bar>80 - 100 * 52138204283464 / 65582646897439\<bar>"
proof -
  have fu: "find_one (id_is ''0123456789abcdef01234567'') (db_user ex_db_huge) = Some ex_user_huge"
    by (simp add: find_one_def id_is_def ex_db_huge_def ex_db_def ex_user_huge_def ex_user_def)
  have sc: "get_default (tana_mind ex_user_huge) 0 = 52138204283464"
    "get_default (tana_money ex_user_huge) 0 = 13444442613975"
    "get_default (tana_meaning ex_user_huge) 0 = 0"
    by (simp_all add: get_default_def ex_user_huge_def ex_user_def)
  have "dashboard ex_db_huge ex_current =
     Inr \<lparr>dv_name = get_default (u_name ex_user_huge) '''',
          dv_purpose = get_default (u_purpose ex_user_huge) Healing,
          dv_tana =
            \<lparr>tv_mind = get_default (tana_mind ex_user_huge) 0,
             tv_money = get_default (tana_money ex_user_huge) 0,
             tv_meaning = get_default (tana_meaning ex_user_huge) 0,
             tv_percentages = \<lparr>pc_mind = 80, pc_money = 21, pc_meaning = 0\<rparr>\<rparr>,
          dv_sessions =
            \<lparr>sv_used = get_default (sessions_used ex_user_huge) 0,
             sv_total = get_default (total_sessions ex_user_huge) 3\<rparr>\<rparr>"
    by (rule dashboard_found [OF to_object_id_ex_current fu])
       (simp_all add: sc percentage_huge_mind percentage_huge_money percentage_zero)
  then have "dashboard ex_db_huge ex_current =
     Inr \<lparr>dv_name = ''Asha'',
          dv_purpose = Growth,
          dv_tana =
            \<lparr>tv_mind = 52138204283464, tv_money = 13444442613975, tv_meaning = 0,
             tv_percentages = \<lparr>pc_mind = 80, pc_money = 21, pc_meaning = 0\<rparr>\<rparr>,
          dv_sessions = \<lparr>sv_used = 1, sv_total = 3\<rparr>\<rparr>"
    by (simp add: get_default_def ex_user_huge_def ex_user_def)
  then show ?thesis by simp
qed

end
